theory Spec2Isabelle
  imports Main "HOL-Library.Sublist"
begin

section \<open>JavaScript strings\<close>

text \<open>
  A JavaScript string is a sequence of code units. The model is \<^typ>\<open>string\<close>, a list of
  \<^typ>\<open>char\<close>, read as the code units 0 to 255 (ASCII and the Latin-1 supplement); the
  length of the list is the \<open>.length\<close> of the string. Numbers are \<^typ>\<open>int\<close>: the options
  of the windower are integers, possibly zero or negative, never fractions or NaN.
\<close>

definition isSpace :: "char \<Rightarrow> bool" where
  \<comment> \<open>the class \<open>\s\<close> of a regular expression, which is also what \<open>trim\<close> strips:
      TAB, LF, VT, FF, CR, SP and the no-break space\<close>
  "isSpace ch = (ch \<in> set [CHR 0x09, CHR 0x0A, CHR 0x0B, CHR 0x0C, CHR 0x0D, CHR 0x20, CHR 0xA0])"

definition trim :: "string \<Rightarrow> string" where
  "trim s = rev (dropWhile isSpace (rev (dropWhile isSpace s)))"

definition toLowerChar :: "char \<Rightarrow> char" where
  "toLowerChar ch =
     (let n = (of_char ch :: nat)
      in if (65 \<le> n \<and> n \<le> 90) \<or> (192 \<le> n \<and> n \<le> 222 \<and> n \<noteq> 215)
         then char_of (n + 32) else ch)"

definition toLowerCase :: "string \<Rightarrow> string" where
  "toLowerCase s = map toLowerChar s"

definition str_includes :: "string \<Rightarrow> string \<Rightarrow> bool" where
  \<comment> \<open>\<open>s.includes(t)\<close>: \<open>t\<close> occurs in \<open>s\<close> as a contiguous run\<close>
  "str_includes s t = sublist t s"

definition substring :: "string \<Rightarrow> int \<Rightarrow> int \<Rightarrow> string" where
  \<comment> \<open>\<open>s.substring(a, b)\<close>: both indices are clamped to the string and swapped when
      \<open>a > b\<close>\<close>
  "substring s a b =
     (let n = int (length s);
          a' = max 0 (min a n);
          b' = max 0 (min b n);
          lo = min a' b';
          hi = max a' b'
      in take (nat (hi - lo)) (drop (nat lo) s))"

definition substringFrom :: "string \<Rightarrow> int \<Rightarrow> string" where
  \<comment> \<open>\<open>s.substring(a)\<close>\<close>
  "substringFrom s a = substring s a (int (length s))"

fun join :: "string \<Rightarrow> string list \<Rightarrow> string" where
  "join sep [] = []"
| "join sep [x] = x"
| "join sep (x # y # ys) = x @ sep @ join sep (y # ys)"

subsection \<open>Splitting on a regular expression\<close>

text \<open>
  \<open>s.split(re)\<close> scans \<open>s\<close> from the left; where \<open>re\<close> matches at the current position
  the piece collected so far is emitted and the scan resumes behind the match, otherwise
  the code unit joins the piece. A matcher returns the length of the match of its
  expression anchored at the head of the string, if there is one. Both expressions of the
  program match at least two code units, so the empty-match rule of \<open>split\<close> never applies.
\<close>

fun str_split :: "(string \<Rightarrow> nat option) \<Rightarrow> string \<Rightarrow> string \<Rightarrow> string list" where
  "str_split m piece [] = [rev piece]"
| "str_split m piece (ch # s) =
     (case m (ch # s) of
        Some (Suc k) \<Rightarrow> rev piece # str_split m [] (drop k s)
      | _ \<Rightarrow> str_split m (ch # piece) s)"

definition matchBlankLine :: "string \<Rightarrow> nat option" where
  \<comment> \<open>\<open>/\n\s*\n/\<close>: a line feed, the longest run of white space that still ends in a line
      feed (the star is greedy and backtracks to the last line feed of the run)\<close>
  "matchBlankLine s =
     (case s of
        [] \<Rightarrow> None
      | ch # rest \<Rightarrow>
          if ch = CHR 0x0A then
            (let ws = takeWhile isSpace rest
             in if CHR 0x0A \<in> set ws
                then Some (1 + (length ws - length (takeWhile (\<lambda>x. x \<noteq> CHR 0x0A) (rev ws))))
                else None)
          else None)"

definition matchSentenceEnd :: "string \<Rightarrow> nat option" where
  \<comment> \<open>\<open>/\.\s+/\<close>: a full stop and the whole run of white space behind it, at least one\<close>
  "matchSentenceEnd s =
     (case s of
        [] \<Rightarrow> None
      | ch # rest \<Rightarrow>
          if ch = CHR ''.'' then
            (let ws = takeWhile isSpace rest
             in if ws \<noteq> [] then Some (1 + length ws) else None)
          else None)"

section \<open>The content windower\<close>

text \<open>
  \<open>processContentWithOptions\<close>, the same in both copies of the module. An option that
  is \<open>undefined\<close> is \<open>None\<close>; so is a field of the result that is absent or \<open>undefined\<close>.
\<close>

record options =
  maxLength :: "int option"
  startOffset :: "int option"
  filterKeywords :: "string list option"

record debug_info =
  keywordCount :: nat
  originalLength :: nat
  paragraphCount :: nat
  keywordFilteringApplied :: bool
  finalLength :: nat

record window_result =
  content :: string
  truncated :: bool
  totalLength :: nat
  extractedSections :: "string list option"
  debug :: "debug_info option"

definition effectiveMaxLength :: "options \<Rightarrow> int" where
  \<comment> \<open>\<open>options.maxLength || 50000\<close>: an absent or zero limit is the default\<close>
  "effectiveMaxLength opts =
     (case maxLength opts of None \<Rightarrow> 50000 | Some m \<Rightarrow> if m = 0 then 50000 else m)"

definition effectiveStartOffset :: "options \<Rightarrow> int" where
  \<comment> \<open>\<open>options.startOffset || 0\<close>\<close>
  "effectiveStartOffset opts = (case startOffset opts of None \<Rightarrow> 0 | Some n \<Rightarrow> n)"

subsection \<open>Segmenting the content\<close>

function slidingWindow :: "string \<Rightarrow> nat \<Rightarrow> string list" where
  "slidingWindow c i =
     (if i < length c then
        (let chunk = substring c (int i) (int i + 800)
         in (if trim chunk \<noteq> [] then [trim chunk] else []) @ slidingWindow c (i + (800 - 100)))
      else [])"
  by pat_completeness auto
termination
  by (relation "measure (\<lambda>(c, i). length c - i)") auto

definition segments :: "string \<Rightarrow> string list" where
  "segments c =
     (let paragraphs = str_split matchBlankLine [] c
      in if length paragraphs = 1 \<and> length (paragraphs ! 0) > 2000 then
           (let sentences = map (\<lambda>sentence. trim sentence @ ''.'') (str_split matchSentenceEnd [] c)
            in if list_ex (\<lambda>p. length p > 1500) sentences then slidingWindow c 0
               else sentences)
         else paragraphs)"

subsection \<open>Selecting the segments that mention a keyword\<close>

definition hasKeyword :: "string list \<Rightarrow> string \<Rightarrow> bool" where
  "hasKeyword kws paragraph =
     list_ex (\<lambda>keyword. str_includes (toLowerCase paragraph) (toLowerCase keyword)) kws"

definition contextChunk :: "string list \<Rightarrow> nat \<Rightarrow> string" where
  \<comment> \<open>\<open>i - 2\<close> on \<^typ>\<open>nat\<close> is \<open>Math.max(0, i - 2)\<close>\<close>
  "contextChunk paragraphs i =
     (let contextStart = i - 2;
          contextEnd = min (length paragraphs) (i + 3)
      in trim (join ''. '' (take (contextEnd - contextStart) (drop contextStart paragraphs))))"

definition isDuplicate :: "string list \<Rightarrow> string \<Rightarrow> bool" where
  "isDuplicate sections paragraph =
     list_ex (\<lambda>existing. str_includes existing (trim paragraph)
                        \<or> str_includes (trim paragraph) existing) sections"

definition filterStep :: "string list \<Rightarrow> string list \<Rightarrow> string list \<Rightarrow> nat \<Rightarrow> string list" where
  \<comment> \<open>one turn of the loop over the segment indices; \<open>sections\<close> is the list built so far\<close>
  "filterStep kws paragraphs sections i =
     (let paragraph = paragraphs ! i
      in if hasKeyword kws paragraph then
           (if \<not> isDuplicate sections paragraph
            then sections @ [contextChunk paragraphs i]
            else sections)
         else sections)"

definition collectSections :: "string list \<Rightarrow> string list \<Rightarrow> nat \<Rightarrow> string list" where
  \<comment> \<open>\<open>sections\<close> after the turns \<open>0, \<dots>, n - 1\<close> of the loop\<close>
  "collectSections kws paragraphs n = foldl (filterStep kws paragraphs) [] [0..<n]"

subsection \<open>Fitting the sections into the budget\<close>

definition avgChunkSize :: "int \<Rightarrow> string list \<Rightarrow> int" where
  "avgChunkSize maxLen sections = maxLen div (min (int (length sections)) 10)"

definition minChunkSize :: int where
  "minChunkSize = 200"

fun allocate :: "int \<Rightarrow> int \<Rightarrow> string list \<Rightarrow> int \<Rightarrow> string list \<Rightarrow> string list" where
  "allocate maxLen avg [] totalUsed chunks = chunks"
| "allocate maxLen avg (section # rest) totalUsed chunks =
     (if totalUsed < maxLen \<and> length chunks < 10 then
        (let remainingSpace = maxLen - totalUsed;
             chunkSize = max minChunkSize (min avg remainingSpace)
         in if int (length section) \<le> chunkSize then
              allocate maxLen avg rest (totalUsed + (int (length section) + 4)) (chunks @ [section])
            else if remainingSpace \<ge> minChunkSize then
              allocate maxLen avg rest (totalUsed + (chunkSize + 4))
                (chunks @ [substring section 0 (chunkSize - 3) @ ''...''])
            else chunks)
      else chunks)"

definition chunkSeparator :: string where
  "chunkSeparator = [CHR 0x0A, CHR 0x0A] @ ''--- '' @ [CHR 0x0A, CHR 0x0A]"

definition noMatchNotice :: string where
  "noMatchNotice = ''[No content found matching the specified keywords]''"

subsection \<open>\<open>processContentWithOptions\<close>\<close>

definition keywordsGiven :: "options \<Rightarrow> bool" where
  \<comment> \<open>\<open>options.filterKeywords && options.filterKeywords.length > 0\<close>\<close>
  "keywordsGiven opts = (case filterKeywords opts of None \<Rightarrow> False | Some kws \<Rightarrow> kws \<noteq> [])"

definition keywordFilter :: "string \<Rightarrow> options \<Rightarrow> string \<times> string list option \<times> bool" where
  \<comment> \<open>the block guarded by \<^const>\<open>keywordsGiven\<close>: the new \<open>processedContent\<close>,
      \<open>extractedSections\<close> and \<open>keywordFilteringApplied\<close>\<close>
  "keywordFilter c opts =
     (let kws = (case filterKeywords opts of None \<Rightarrow> [] | Some ks \<Rightarrow> ks);
          paragraphs = segments c;
          sections = collectSections kws paragraphs (length paragraphs)
      in if length sections > 0 then
           (let maxLen = effectiveMaxLength opts;
                chunks = allocate maxLen (avgChunkSize maxLen sections) sections 0 []
            in (join chunkSeparator chunks, Some sections, True))
         else (noMatchNotice, None, False))"

definition applyOffset :: "options \<Rightarrow> string \<times> bool \<Rightarrow> string \<times> bool" where
  "applyOffset opts st =
     (let off = effectiveStartOffset opts
      in if off > 0 \<and> off < int (length (fst st)) then (substringFrom (fst st) off, True)
         else st)"

definition applyMaxLength :: "options \<Rightarrow> bool \<Rightarrow> string \<times> bool \<Rightarrow> string \<times> bool" where
  "applyMaxLength opts applied st =
     (if \<not> applied then
        (let maxLen = effectiveMaxLength opts
         in if int (length (fst st)) > maxLen then (substring (fst st) 0 maxLen, True)
            else st)
      else st)"

definition processContentWithOptions :: "string \<Rightarrow> options \<Rightarrow> window_result" where
  "processContentWithOptions c opts =
     (if trim c = [] then
        \<lparr>content = [], truncated = False, totalLength = 0, extractedSections = None,
         debug = None\<rparr>
      else
        (let (filtered, extracted, applied) =
               (if keywordsGiven opts then keywordFilter c opts else (c, None, False));
             (processed, trunc) =
               applyMaxLength opts applied (applyOffset opts (filtered, False))
         in \<lparr>content = processed, truncated = trunc, totalLength = length c,
             extractedSections = extracted,
             debug =
               (case filterKeywords opts of
                  None \<Rightarrow> None
                | Some kws \<Rightarrow>
                    Some \<lparr>keywordCount = length kws, originalLength = length c,
                          paragraphCount = length (str_split matchBlankLine [] c),
                          keywordFilteringApplied = applied,
                          finalLength = length processed\<rparr>)\<rparr>))"

subsection \<open>The run of a call\<close>



inductive keywordLoop ::
  "string list \<Rightarrow> string list \<Rightarrow> nat \<Rightarrow> string list \<Rightarrow> string list \<Rightarrow> bool"
  for kws :: "string list" and paragraphs :: "string list" where
  keyword_exit:
    "\<not> i < length paragraphs \<Longrightarrow> keywordLoop kws paragraphs i sections sections"
| keyword_miss:
    "i < length paragraphs \<Longrightarrow> \<not> hasKeyword kws (paragraphs ! i) \<Longrightarrow>
     keywordLoop kws paragraphs (i + 1) sections out \<Longrightarrow>
     keywordLoop kws paragraphs i sections out"
| keyword_duplicate:
    "i < length paragraphs \<Longrightarrow> hasKeyword kws (paragraphs ! i) \<Longrightarrow>
     isDuplicate sections (paragraphs ! i) \<Longrightarrow>
     keywordLoop kws paragraphs (i + 1) sections out \<Longrightarrow>
     keywordLoop kws paragraphs i sections out"
| keyword_push:
    "i < length paragraphs \<Longrightarrow> hasKeyword kws (paragraphs ! i) \<Longrightarrow>
     \<not> isDuplicate sections (paragraphs ! i) \<Longrightarrow>
     keywordLoop kws paragraphs (i + 1) (sections @ [contextChunk paragraphs i]) out \<Longrightarrow>
     keywordLoop kws paragraphs i sections out"

inductive allocateLoop ::
  "int \<Rightarrow> int \<Rightarrow> string list \<Rightarrow> nat \<Rightarrow> int \<Rightarrow> string list \<Rightarrow> string list \<Rightarrow> bool"
  for maxLen :: int and avg :: int and sections :: "string list" where
  allocate_exit:
    "\<not> (i < length sections \<and> totalUsed < maxLen \<and> length chunks < 10) \<Longrightarrow>
     allocateLoop maxLen avg sections i totalUsed chunks chunks"
| allocate_whole:
    "i < length sections \<and> totalUsed < maxLen \<and> length chunks < 10 \<Longrightarrow>
     remainingSpace = maxLen - totalUsed \<Longrightarrow>
     chunkSize = max minChunkSize (min avg remainingSpace) \<Longrightarrow>
     int (length (sections ! i)) \<le> chunkSize \<Longrightarrow>
     allocateLoop maxLen avg sections (i + 1) (totalUsed + (int (length (sections ! i)) + 4))
       (chunks @ [sections ! i]) out \<Longrightarrow>
     allocateLoop maxLen avg sections i totalUsed chunks out"
| allocate_truncated:
    "i < length sections \<and> totalUsed < maxLen \<and> length chunks < 10 \<Longrightarrow>
     remainingSpace = maxLen - totalUsed \<Longrightarrow>
     chunkSize = max minChunkSize (min avg remainingSpace) \<Longrightarrow>
     \<not> int (length (sections ! i)) \<le> chunkSize \<Longrightarrow>
     remainingSpace \<ge> minChunkSize \<Longrightarrow>
     allocateLoop maxLen avg sections (i + 1) (totalUsed + (chunkSize + 4))
       (chunks @ [substring (sections ! i) 0 (chunkSize - 3) @ ''...'']) out \<Longrightarrow>
     allocateLoop maxLen avg sections i totalUsed chunks out"
| allocate_break:
    "i < length sections \<and> totalUsed < maxLen \<and> length chunks < 10 \<Longrightarrow>
     remainingSpace = maxLen - totalUsed \<Longrightarrow>
     chunkSize = max minChunkSize (min avg remainingSpace) \<Longrightarrow>
     \<not> int (length (sections ! i)) \<le> chunkSize \<Longrightarrow>
     \<not> remainingSpace \<ge> minChunkSize \<Longrightarrow>
     allocateLoop maxLen avg sections i totalUsed chunks chunks"



section \<open>Collaborators and failures\<close>

text \<open>
  The network, the HTML parser and the word dictionary are not part of the program: they
  are parameters of the model, and a theorem holds for every behaviour they may have. A
  call that can throw, or a promise that can reject, returns \<open>Inl\<close> of what is thrown;
  \<open>await\<close> on it continues with the value of \<open>Inr\<close>. What \<open>console.warn\<close> prints is
  returned as a list of warnings.
\<close>

datatype exn =
    JinaConversionFailed nat  \<comment> \<open>\<open>new Error(`Jina conversion failed: ${response.status}`)\<close>\<close>
  | HtmlFetchFailed nat  \<comment> \<open>\<open>new Error(`HTML fetch failed: ${response.status}`)\<close>\<close>
  | Thrown string  \<comment> \<open>whatever a collaborator throws\<close>

type_synonym warning = "string \<times> exn"

section \<open>The word segmenter\<close>

text \<open>
  \<open>segmentMergedWords\<close> and \<open>initWordSegmentation\<close>. The package wordsninja is a
  parameter: what its constructor, its \<open>loadDictionary\<close> and its \<open>splitSentence\<close> do.
\<close>

record wordsNinjaPack =
  construct :: "exn option"  \<comment> \<open>\<open>new WordsNinjaPack()\<close>: \<open>Some e\<close> when it throws \<open>e\<close>\<close>
  loadDictionary :: "exn option"  \<comment> \<open>\<open>Some e\<close> when the promise rejects with \<open>e\<close>\<close>
  splitSentence :: "string \<Rightarrow> exn + string list"

definition initWordSegmentation :: "wordsNinjaPack \<Rightarrow> bool \<Rightarrow> (exn + unit) \<times> bool" where
  \<comment> \<open>the state is the global \<open>wordsNinja\<close>: \<open>True\<close> once it holds an instance. The instance
      is stored before its dictionary is loaded.\<close>
  "initWordSegmentation lib wordsNinja =
     (if \<not> wordsNinja then
        (case construct lib of
           Some e \<Rightarrow> (Inl e, False)
         | None \<Rightarrow>
             (case loadDictionary lib of
                Some e \<Rightarrow> (Inl e, True)
              | None \<Rightarrow> (Inr (), True)))
      else (Inr (), wordsNinja))"

definition matchSpaces :: "string \<Rightarrow> nat option" where
  \<comment> \<open>\<open>/\s+/\<close>\<close>
  "matchSpaces s =
     (let ws = takeWhile isSpace s in if ws \<noteq> [] then Some (length ws) else None)"

definition isLetter :: "char \<Rightarrow> bool" where
  \<comment> \<open>\<open>[a-zA-Z]\<close>\<close>
  "isLetter ch =
     (let n = (of_char ch :: nat) in (65 \<le> n \<and> n \<le> 90) \<or> (97 \<le> n \<and> n \<le> 122))"

definition processWord :: "wordsNinjaPack \<Rightarrow> string \<Rightarrow> string" where
  \<comment> \<open>the body of the loop over the words: what is pushed to \<open>processedWords\<close>\<close>
  "processWord lib word =
     (if length word > 12 \<and> word \<noteq> [] \<and> list_all isLetter word then
        (case splitSentence lib (toLowerCase word) of
           Inr segmented \<Rightarrow>
             if length segmented > 1 then join '' '' segmented else word
         | Inl error \<Rightarrow> word)
      else word)"

definition segmentation :: "wordsNinjaPack \<Rightarrow> bool \<Rightarrow> string \<Rightarrow> (exn + string) \<times> bool" where
  \<comment> \<open>the \<open>try\<close> block of \<open>segmentMergedWords\<close>\<close>
  "segmentation lib wordsNinja txt =
     (case initWordSegmentation lib wordsNinja of
        (Inl e, st) \<Rightarrow> (Inl e, st)
      | (Inr ninja, st) \<Rightarrow>
          (Inr (join '' '' (map (processWord lib) (str_split matchSpaces [] txt))), st))"

definition segmentMergedWords ::
  "wordsNinjaPack \<Rightarrow> bool \<Rightarrow> string \<Rightarrow> (exn + string) \<times> bool \<times> warning list" where
  \<comment> \<open>the outcome of the call, the global \<open>wordsNinja\<close> after it, the warnings printed\<close>
  "segmentMergedWords lib wordsNinja txt =
     (if txt = [] \<or> length txt < 10 then (Inr txt, wordsNinja, [])
      else
        (case segmentation lib wordsNinja txt of
           (Inr segmented, st) \<Rightarrow> (Inr segmented, st, [])
         | (Inl error, st) \<Rightarrow> (Inr txt, st, [(''Word segmentation failed:'', error)])))"

section \<open>The HTML extractor\<close>

text \<open>
  \<open>extractTextFromHtml\<close>, in the copy that does not segment merged words. The parser is
  the package node-html-parser. Its \<open>parse\<close> and its decoding of character references
  are parameters; the tree it returns and the operations the extractor calls on it are
  modelled: an element has a tag name and child nodes, a text node its raw text, the root
  is an element without a tag name; a type selector matches a tag name whatever its case;
  the text of an element is the decoded concatenation of the raw texts below it, a line
  feed for a \<open>br\<close> element.
\<close>

datatype node = Element string "node list" | TextNode string

record htmlParser =
  parse :: "string \<Rightarrow> node"
  decode :: "string \<Rightarrow> string"  \<comment> \<open>decoding of character references\<close>

fun hasTag :: "string \<Rightarrow> node \<Rightarrow> bool" where
  \<comment> \<open>the element is matched by the type selector \<open>name\<close>\<close>
  "hasTag name (Element tag children) = (toLowerCase tag = name)"
| "hasTag name (TextNode raw) = False"

definition isNonContent :: "node \<Rightarrow> bool" where
  \<comment> \<open>matched by \<open>script, style, nav, header, footer\<close>\<close>
  "isNonContent n =
     list_ex (\<lambda>name. hasTag name n) [''script'', ''style'', ''nav'', ''header'', ''footer'']"

fun removeNonContent :: "node \<Rightarrow> node" where
  \<comment> \<open>\<open>root.querySelectorAll('script, style, nav, header, footer').forEach(el => el.remove())\<close>:
      every matching descendant is detached from its parent\<close>
  "removeNonContent (TextNode raw) = TextNode raw"
| "removeNonContent (Element tag children) =
     Element tag (map removeNonContent (filter (\<lambda>child. \<not> isNonContent child) children))"

fun descendants :: "node \<Rightarrow> node list" where
  \<comment> \<open>in document order\<close>
  "descendants (TextNode raw) = []"
| "descendants (Element tag children) = concat (map (\<lambda>child. child # descendants child) children)"

definition querySelector :: "string \<Rightarrow> node \<Rightarrow> node option" where
  "querySelector name root = find (hasTag name) (descendants root)"

fun rawText :: "node \<Rightarrow> string" where
  "rawText (TextNode raw) = raw"
| "rawText (Element tag children) =
     (if toLowerCase tag = ''br'' then [CHR 0x0A] else concat (map rawText children))"

definition nodeText :: "htmlParser \<Rightarrow> node \<Rightarrow> string" where
  \<comment> \<open>the property \<open>text\<close> of a node\<close>
  "nodeText lib n = decode lib (rawText n)"

fun crlfToLf :: "string \<Rightarrow> string" where
  \<comment> \<open>\<open>.replace(/\r\n/g, '\n')\<close>\<close>
  "crlfToLf (a # b # s) =
     (if a = CHR 0x0D \<and> b = CHR 0x0A then CHR 0x0A # crlfToLf s else a # crlfToLf (b # s))"
| "crlfToLf s = s"

definition crToLf :: "string \<Rightarrow> string" where
  \<comment> \<open>\<open>.replace(/\r/g, '\n')\<close>\<close>
  "crToLf s = map (\<lambda>ch. if ch = CHR 0x0D then CHR 0x0A else ch) s"

function collapseRuns :: "(char \<Rightarrow> bool) \<Rightarrow> string \<Rightarrow> string" where
  \<comment> \<open>\<open>.replace(/\n+/g, ' ')\<close> and \<open>.replace(/\s+/g, ' ')\<close>: every maximal run of the class
      becomes one space\<close>
  "collapseRuns P [] = []"
| "collapseRuns P (ch # s) =
     (if P ch then CHR '' '' # collapseRuns P (dropWhile P s) else ch # collapseRuns P s)"
  by pat_completeness auto
termination
  by (relation "measure (\<lambda>(P, s). length s)") (auto simp add: length_dropWhile_le less_Suc_eq_le)

definition isWordChar :: "char \<Rightarrow> bool" where
  \<comment> \<open>\<open>\w\<close>, that is \<open>[A-Za-z0-9_]\<close>\<close>
  "isWordChar ch =
     (let n = (of_char ch :: nat)
      in (65 \<le> n \<and> n \<le> 90) \<or> (97 \<le> n \<and> n \<le> 122) \<or> (48 \<le> n \<and> n \<le> 57) \<or> n = 95)"

definition isCapital :: "char \<Rightarrow> bool" where
  \<comment> \<open>\<open>[A-Z]\<close>\<close>
  "isCapital ch = (let n = (of_char ch :: nat) in 65 \<le> n \<and> n \<le> 90)"

fun spaceBeforeCapitals :: "string \<Rightarrow> string" where
  \<comment> \<open>\<open>.replace(/(\w)([A-Z])/g, '$1 $2')\<close>: the scan resumes behind the capital\<close>
  "spaceBeforeCapitals (a # b # s) =
     (if isWordChar a \<and> isCapital b then a # CHR '' '' # b # spaceBeforeCapitals s
      else a # spaceBeforeCapitals (b # s))"
| "spaceBeforeCapitals s = s"

definition cleanUp :: "string \<Rightarrow> string" where
  "cleanUp bodyText =
     trim (spaceBeforeCapitals (collapseRuns isSpace (collapseRuns (\<lambda>ch. ch = CHR 0x0A)
       (crToLf (crlfToLf bodyText)))))"

definition extractTextFromHtml :: "htmlParser \<Rightarrow> string \<Rightarrow> string" where
  "extractTextFromHtml lib htmlContent =
     (if trim htmlContent = [] then []
      else
        (let root = removeNonContent (parse lib htmlContent);
             title = (case querySelector ''title'' root of
                        None \<Rightarrow> []
                      | Some el \<Rightarrow> trim (nodeText lib el));
             bodyText = (case querySelector ''body'' root of
                           None \<Rightarrow> nodeText lib root
                         | Some el \<Rightarrow>
                             if nodeText lib el \<noteq> [] then nodeText lib el
                             else nodeText lib root);
             cleanText = cleanUp bodyText
         in if title \<noteq> [] then title @ [CHR 0x0A, CHR 0x0A] @ cleanText else cleanText))"

fun rewriteNonContent :: "(node list \<Rightarrow> node list) \<Rightarrow> node \<Rightarrow> node" where
  \<comment> \<open>the same document with other content inside its non-content elements: the children
      of every outermost such element are replaced\<close>
  "rewriteNonContent f (TextNode raw) = TextNode raw"
| "rewriteNonContent f (Element tag children) =
     (if isNonContent (Element tag children) then Element tag (f children)
      else Element tag (map (rewriteNonContent f) children))"

section \<open>Converting a URL\<close>

record response =
  ok :: bool
  status :: nat
  responseText :: "exn + string"  \<comment> \<open>\<open>await response.text()\<close>\<close>

type_synonym fetcher = "string \<Rightarrow> (string \<times> string) list \<Rightarrow> exn + response"

definition convertWithJina :: "fetcher \<Rightarrow> string \<Rightarrow> exn + string" where
  "convertWithJina fetch url =
     (let jinaUrl = ''https://r.jina.ai/'' @ url
      in case fetch jinaUrl
                [(''Accept'', ''text/plain''), (''User-Agent'', ''Readwise-MCP-Server/1.0.0'')] of
           Inl e \<Rightarrow> Inl e
         | Inr resp \<Rightarrow>
             if \<not> ok resp then Inl (JinaConversionFailed (status resp))
             else responseText resp)"

definition shouldUseJina :: "string option \<Rightarrow> bool" where
  \<comment> \<open>\<open>!category || category === 'article' || category === 'pdf'\<close>\<close>
  "shouldUseJina category =
     (case category of
        None \<Rightarrow> True
      | Some cat \<Rightarrow> cat = [] \<or> cat = ''article'' \<or> cat = ''pdf'')"

definition fetchAndExtract :: "fetcher \<Rightarrow> htmlParser \<Rightarrow> string \<Rightarrow> exn + string" where
  \<comment> \<open>the \<open>else\<close> branch: the raw HTML is fetched and extracted locally\<close>
  "fetchAndExtract fetch lib url =
     (case fetch url
             [(''User-Agent'', ''Readwise-MCP-Server/1.0.0''),
              (''Accept'', ''text/html,application/xhtml+xml'')] of
        Inl e \<Rightarrow> Inl e
      | Inr resp \<Rightarrow>
          if \<not> ok resp then Inl (HtmlFetchFailed (status resp))
          else
            (case responseText resp of
               Inl e \<Rightarrow> Inl e
             | Inr html \<Rightarrow> Inr (extractTextFromHtml lib html)))"

definition conversion :: "fetcher \<Rightarrow> htmlParser \<Rightarrow> string \<Rightarrow> string option \<Rightarrow> exn + string" where
  \<comment> \<open>the \<open>try\<close> block of \<open>convertUrlToText\<close>\<close>
  "conversion fetch lib url category =
     (if shouldUseJina category then convertWithJina fetch url
      else fetchAndExtract fetch lib url)"

definition conversionError :: string where
  "conversionError = ''[Content unavailable - conversion error]''"

definition convertUrlToText ::
  "fetcher \<Rightarrow> htmlParser \<Rightarrow> string \<Rightarrow> string option \<Rightarrow> (exn + string) \<times> warning list" where
  \<comment> \<open>the outcome of the call and the warnings printed\<close>
  "convertUrlToText fetch lib url category =
     (if trim url = [] then (Inr [], [])
      else
        (case conversion fetch lib url category of
           Inr converted \<Rightarrow> (Inr converted, [])
         | Inl error \<Rightarrow> (Inr conversionError, [(''Error converting URL to text:'', error)])))"

section \<open>Sample inputs\<close>

definition blankLine :: string where
  "blankLine = [CHR 0x0A, CHR 0x0A]"

definition dedupExample :: string where
  \<comment> \<open>six paragraphs: foo, a, a, xfoo, a, a\<close>
  "dedupExample =
     ''foo'' @ blankLine @ ''a'' @ blankLine @ ''a'' @ blankLine @
     ''xfoo'' @ blankLine @ ''a'' @ blankLine @ ''a''"

definition neighbourExample :: string where
  \<comment> \<open>three paragraphs: foo, a, foo\<close>
  "neighbourExample = ''foo'' @ blankLine @ ''a'' @ blankLine @ ''foo''"

definition unloadedNinja :: wordsNinjaPack where
  \<comment> \<open>a dictionary that cannot be loaded\<close>
  "unloadedNinja =
     \<lparr>construct = None, loadDictionary = Some (Thrown ''dictionary not found''),
      splitSentence = (\<lambda>word. Inl (Thrown ''dictionary not loaded''))\<rparr>"

definition brokenNinja :: wordsNinjaPack where
  \<comment> \<open>a dictionary that fails on one word\<close>
  "brokenNinja =
     \<lparr>construct = None, loadDictionary = None,
      splitSentence =
        (\<lambda>word. if word = ''whatyoudoisgood'' then Inl (Thrown ''out of memory'')
                 else Inr [''thank'', ''you'', ''very'', ''much''])\<rparr>"

definition mergedText :: string where
  "mergedText = ''whatyoudoisgood  Thankyouverymuch ok''"

definition offlineFetch :: fetcher where
  "offlineFetch = (\<lambda>url headers. Inl (Thrown ''network unreachable''))"

definition serverErrorFetch :: fetcher where
  "serverErrorFetch =
     (\<lambda>url headers. Inr \<lparr>ok = False, status = 500, responseText = Inr ''Internal Server Error''\<rparr>)"

definition scriptPage :: string where
  "scriptPage = ''<body>abc<script>abc</script></body>''"

definition scriptDocument :: node where
  "scriptDocument =
     Element [] [Element ''body'' [TextNode ''abc'', Element ''script'' [TextNode ''abc'']]]"

definition otherScriptPage :: string where
  "otherScriptPage = ''<body>abc<script>xyz</script></body>''"

definition otherScriptDocument :: node where
  "otherScriptDocument =
     Element [] [Element ''body'' [TextNode ''abc'', Element ''script'' [TextNode ''xyz'']]]"

definition pageParser :: htmlParser where
  \<comment> \<open>the trees of the two sample pages; the pages hold no character reference\<close>
  "pageParser =
     \<lparr>parse = (\<lambda>html. if html = scriptPage then scriptDocument
                       else if html = otherScriptPage then otherScriptDocument
                       else Element [] [TextNode html]),
      decode = (\<lambda>raw. raw)\<rparr>"

section \<open>Properties of the string operations\<close>

lemma trim_Nil: "trim [] = []"
  by (simp add: trim_def)

lemma substring_0: "0 \<le> n \<Longrightarrow> substring s 0 n = take (nat n) s"
  by (simp add: substring_def Let_def min_def max_def)

lemma trim_sublist: "sublist (trim s) s"
proof -
  have "prefix (trim s) (dropWhile isSpace s)"
    unfolding trim_def by (metis prefix_def rev_append rev_rev_ident takeWhile_dropWhile_id)
  moreover have "suffix (dropWhile isSpace s) s" by (rule suffix_dropWhile)
  ultimately show ?thesis
    by (meson prefix_imp_sublist suffix_imp_sublist sublist_order.order_trans)
qed

lemma dropWhile_keeps_infix:
  assumes "t \<noteq> []" "\<not> P (hd t)"
  shows "\<exists>ps'. dropWhile P (ps @ t @ ss) = ps' @ t @ ss"
proof (cases "\<forall>x\<in>set ps. P x")
  case True
  from assms have "dropWhile P (t @ ss) = t @ ss" by (cases t) auto
  with True have "dropWhile P (ps @ t @ ss) = [] @ t @ ss" by (simp add: dropWhile_append)
  then show ?thesis by blast
next
  case False
  then have "dropWhile P (ps @ t @ ss) = dropWhile P ps @ t @ ss"
    by (auto simp add: dropWhile_append)
  then show ?thesis by blast
qed

text \<open>Trimming a string keeps every occurrence of a text that has no white space at its ends.\<close>

lemma trim_keeps_infix:
  assumes "sublist t s" "t = [] \<or> (\<not> isSpace (hd t) \<and> \<not> isSpace (last t))"
  shows "sublist t (trim s)"
proof (cases "t = []")
  case True
  then show ?thesis by simp
next
  case False
  with assms(2) have h: "\<not> isSpace (hd t)" and l: "\<not> isSpace (last t)" by auto
  from assms(1) obtain ps ss where s: "s = ps @ t @ ss" by (auto simp add: sublist_def)
  from dropWhile_keeps_infix [of t isSpace ps ss] False h obtain ps' where
    a: "dropWhile isSpace s = ps' @ t @ ss" unfolding s by blast
  have "rev t \<noteq> []" "\<not> isSpace (hd (rev t))" using False l by (simp_all add: hd_rev)
  with dropWhile_keeps_infix [of "rev t" isSpace "rev ss" "rev ps'"] obtain ss' where
    b: "dropWhile isSpace (rev ss @ rev t @ rev ps') = ss' @ rev t @ rev ps'" by blast
  have "trim s = ps' @ t @ rev ss'"
    by (simp add: trim_def a b)
  then show ?thesis by (auto simp add: sublist_def)
qed

lemma trim_ends:
  "trim x = [] \<or> (\<not> isSpace (hd (trim x)) \<and> \<not> isSpace (last (trim x)))"
proof (cases "trim x = []")
  case True
  then show ?thesis by simp
next
  case False
  let ?y = "dropWhile isSpace x"
  let ?z = "dropWhile isSpace (rev ?y)"
  have t: "trim x = rev ?z" by (simp add: trim_def)
  with False have z: "?z \<noteq> []" by simp
  have y: "?y \<noteq> []"
  proof
    assume "?y = []"
    then have "?z = []" by (simp only: rev.simps dropWhile.simps)
    with z show False by (simp only: not_True_eq_False simp_thms)
  qed
  have "\<not> isSpace (hd ?z)" using z by (rule hd_dropWhile)
  then have l: "\<not> isSpace (last (trim x))" using z by (simp add: t last_rev)
  have "suffix ?z (rev ?y)" by (rule suffix_dropWhile)
  then have "last ?z = last (rev ?y)" using z
    by (metis last_appendR suffix_def)
  then have "hd (trim x) = hd ?y" using z y by (simp add: t hd_rev last_rev)
  moreover have "\<not> isSpace (hd ?y)" using y by (rule hd_dropWhile)
  ultimately show ?thesis using l by simp
qed

lemma sublist_join: "x \<in> set xs \<Longrightarrow> sublist x (join sep xs)"
proof (induction sep xs rule: join.induct)
  case (1 sep)
  then show ?case by simp
next
  case (2 sep x)
  then show ?case by simp
next
  case (3 sep y z ys)
  show ?case
  proof (cases "x = y")
    case True
    then show ?thesis by simp
  next
    case False
    with 3 have "sublist x (join sep (z # ys))" by simp
    then show ?thesis
      by (metis append_assoc join.simps(3) sublist_order.order_trans sublist_append_leftI)
  qed
qed

section \<open>Properties of the windower\<close>

subsection \<open>Blank content\<close>

text \<open>
  Claim C10. For every content whose trimmed form is empty, white space only included, and
  every configuration, the result is exactly the empty content, not truncated, of total
  length 0, with neither extracted sections nor debug record, whatever \<open>maxLength\<close>,
  \<open>startOffset\<close> and \<open>filterKeywords\<close> are.
\<close>

theorem blank_content_result:
  "trim c = [] \<Longrightarrow>
   processContentWithOptions c opts =
     \<lparr>content = [], truncated = False, totalLength = 0, extractedSections = None,
      debug = None\<rparr>"
  by (simp add: processContentWithOptions_def)

theorem blank_content_result_witness:
  "trim ''   '' = [] \<and> length ''   '' = (3::nat) \<and>
   processContentWithOptions ''   ''
       \<lparr>maxLength = Some 2, startOffset = Some 1, filterKeywords = Some [''foo'']\<rparr> =
     \<lparr>content = [], truncated = False, totalLength = 0, extractedSections = None,
      debug = None\<rparr>"
proof -
  have h: "trim ''   '' = []" by (simp add: trim_def isSpace_def)
  show ?thesis using h blank_content_result [OF h] by simp
qed

subsection \<open>The total length\<close>

text \<open>
  Claim C1, as stated: the total length of the result is the length of the content as
  passed in, for every content, white space only included. Three spaces refute it: the
  result reports 0.
\<close>

theorem totalLength_counterexample:
  "totalLength (processContentWithOptions ''   ''
      \<lparr>maxLength = None, startOffset = None, filterKeywords = None\<rparr>) \<noteq> length ''   ''"
  by (simp add: processContentWithOptions_def trim_def isSpace_def)

text \<open>
  Claim C1, amended: for every content that is empty or has a non-empty trimmed form, and
  every configuration, the total length of the result is the length of the content as
  passed in, before keyword filtering, offset and truncation.
\<close>

theorem totalLength_is_input_length:
  "c = [] \<or> trim c \<noteq> [] \<Longrightarrow> totalLength (processContentWithOptions c opts) = length c"
  by (auto simp add: processContentWithOptions_def Let_def trim_Nil split: prod.splits)

theorem totalLength_is_input_length_witness:
  "(''foo bar'' = [] \<or> trim ''foo bar'' \<noteq> []) \<and>
   truncated (processContentWithOptions ''foo bar''
      \<lparr>maxLength = Some 5, startOffset = None, filterKeywords = None\<rparr>) \<and>
   totalLength (processContentWithOptions ''foo bar''
      \<lparr>maxLength = Some 5, startOffset = None, filterKeywords = None\<rparr>) = 7"
proof -
  have h: "''foo bar'' = [] \<or> trim ''foo bar'' \<noteq> []" by (simp add: trim_def isSpace_def)
  have t: "truncated (processContentWithOptions ''foo bar''
      \<lparr>maxLength = Some 5, startOffset = None, filterKeywords = None\<rparr>)"
    using h by (simp add: processContentWithOptions_def keywordsGiven_def applyOffset_def
      applyMaxLength_def effectiveStartOffset_def effectiveMaxLength_def)
  show ?thesis using h t totalLength_is_input_length [OF h] by simp
qed

subsection \<open>Without keywords\<close>

lemma no_keywords_result:
  assumes "trim c \<noteq> []" "filterKeywords opts \<in> {None, Some []}" "startOffset opts = None"
  shows "content (processContentWithOptions c opts) =
           (if int (length c) > effectiveMaxLength opts
            then substring c 0 (effectiveMaxLength opts) else c)"
    and "truncated (processContentWithOptions c opts) =
           (int (length c) > effectiveMaxLength opts)"
  using assms
  by (auto simp add: processContentWithOptions_def keywordsGiven_def applyOffset_def
      applyMaxLength_def effectiveStartOffset_def Let_def)

text \<open>
  Claim C4, as stated: with no keywords, no offset and a content no longer than
  \<open>maxLength\<close>, the content comes back unchanged. A single space refutes it: the result
  holds the empty content.
\<close>

theorem short_content_unchanged_counterexample:
  "int (length '' '') \<le> 5 \<and>
   content (processContentWithOptions '' ''
      \<lparr>maxLength = Some 5, startOffset = None, filterKeywords = None\<rparr>) \<noteq> '' ''"
  by (simp add: processContentWithOptions_def trim_def isSpace_def)

text \<open>
  Claim C4, amended: for every content that is empty or has a non-empty trimmed form and
  every \<open>maxLength\<close> that the length of the content does not exceed, a call with no
  keywords (absent or the empty list) and no offset returns the content unchanged, not
  truncated, with the length of the content as total length.
\<close>

theorem short_content_unchanged:
  assumes "c = [] \<or> trim c \<noteq> []"
    and "maxLength opts = Some m" and "int (length c) \<le> m"
    and "filterKeywords opts \<in> {None, Some []}" and "startOffset opts = None"
  shows "truncated (processContentWithOptions c opts) = False \<and>
         content (processContentWithOptions c opts) = c \<and>
         totalLength (processContentWithOptions c opts) = length c"
proof (cases "trim c = []")
  case True
  with assms(1) have "c = []" by simp
  then show ?thesis by (simp add: processContentWithOptions_def trim_Nil)
next
  case False
  then have "c \<noteq> []" using trim_Nil by auto
  with assms(3) have "m \<noteq> 0" by auto
  with assms(2) have e: "effectiveMaxLength opts = m" by (simp add: effectiveMaxLength_def)
  show ?thesis using False assms e no_keywords_result [of c opts]
    by (simp add: processContentWithOptions_def Let_def split: prod.splits)
qed

theorem short_content_unchanged_witness:
  "(''foo bar'' = [] \<or> trim ''foo bar'' \<noteq> []) \<and> int (length ''foo bar'') \<le> 7 \<and>
   processContentWithOptions ''foo bar''
      \<lparr>maxLength = Some 7, startOffset = None, filterKeywords = None\<rparr> =
     \<lparr>content = ''foo bar'', truncated = False, totalLength = 7, extractedSections = None,
      debug = None\<rparr>"
proof -
  let ?opts = "\<lparr>maxLength = Some 7, startOffset = None, filterKeywords = None\<rparr>"
  have h: "''foo bar'' = [] \<or> trim ''foo bar'' \<noteq> []" by (simp add: trim_def isSpace_def)
  have l: "int (length ''foo bar'') \<le> 7" by simp
  have "truncated (processContentWithOptions ''foo bar'' ?opts) = False \<and>
        content (processContentWithOptions ''foo bar'' ?opts) = ''foo bar'' \<and>
        totalLength (processContentWithOptions ''foo bar'' ?opts) = length ''foo bar''"
    by (rule short_content_unchanged [OF h _ l]) simp_all
  moreover have "extractedSections (processContentWithOptions ''foo bar'' ?opts) = None"
    and "debug (processContentWithOptions ''foo bar'' ?opts) = None"
    using h by (simp_all add: processContentWithOptions_def keywordsGiven_def Let_def
        split: prod.splits)
  ultimately show ?thesis using h by (cases "processContentWithOptions ''foo bar'' ?opts") simp
qed

text \<open>
  Claim C5, as stated: with no keywords, no offset and \<open>0 < N < content.length\<close>, the
  returned content has length \<open>N\<close> and the result is truncated. Three spaces and \<open>N = 1\<close>
  refute it: the result holds the empty content and is not truncated.
\<close>

theorem truncate_to_maxLength_counterexample:
  "(0::int) < 1 \<and> 1 < int (length ''   '') \<and>
   length (content (processContentWithOptions ''   ''
         \<lparr>maxLength = Some 1, startOffset = None, filterKeywords = None\<rparr>)) \<noteq> 1 \<and>
   \<not> truncated (processContentWithOptions ''   ''
         \<lparr>maxLength = Some 1, startOffset = None, filterKeywords = None\<rparr>)"
  by (simp add: processContentWithOptions_def trim_def isSpace_def)

text \<open>
  Claim C5, amended: for every content with a non-empty trimmed form and every \<open>N\<close> with
  \<open>0 < N < content.length\<close>, a call with \<open>maxLength = N\<close>, no keywords (absent or the
  empty list) and no offset returns a content of length exactly \<open>N\<close>, truncated.
\<close>

theorem truncate_to_maxLength:
  assumes "trim c \<noteq> []"
    and "maxLength opts = Some N" and "0 < N" and "N < int (length c)"
    and "filterKeywords opts \<in> {None, Some []}" and "startOffset opts = None"
  shows "int (length (content (processContentWithOptions c opts))) = N \<and>
         truncated (processContentWithOptions c opts) = True"
proof -
  from assms(2,3) have e: "effectiveMaxLength opts = N" by (simp add: effectiveMaxLength_def)
  show ?thesis using assms e no_keywords_result [of c opts]
    by (simp add: substring_0)
qed

theorem truncate_to_maxLength_witness:
  "trim ''foo bar'' \<noteq> [] \<and> (0::int) < 5 \<and> 5 < int (length ''foo bar'') \<and>
   int (length (content (processContentWithOptions ''foo bar''
      \<lparr>maxLength = Some 5, startOffset = None, filterKeywords = None\<rparr>))) = 5 \<and>
   truncated (processContentWithOptions ''foo bar''
      \<lparr>maxLength = Some 5, startOffset = None, filterKeywords = None\<rparr>) = True"
proof -
  have h: "trim ''foo bar'' \<noteq> []" by (simp add: trim_def isSpace_def)
  have l: "5 < int (length ''foo bar'')" by simp
  have "int (length (content (processContentWithOptions ''foo bar''
           \<lparr>maxLength = Some 5, startOffset = None, filterKeywords = None\<rparr>))) = 5 \<and>
        truncated (processContentWithOptions ''foo bar''
           \<lparr>maxLength = Some 5, startOffset = None, filterKeywords = None\<rparr>) = True"
    by (rule truncate_to_maxLength [OF h _ _ l]) simp_all
  then show ?thesis using h by simp
qed

subsection \<open>Deduplication of context chunks\<close>

lemma collectSections_Suc:
  "collectSections kws ps (Suc i) = filterStep kws ps (collectSections kws ps i) i"
  by (simp add: collectSections_def)

lemma isDuplicate_iff:
  "isDuplicate sections p \<longleftrightarrow>
     (\<exists>existing \<in> set sections. sublist (trim p) existing \<or> sublist existing (trim p))"
  by (simp add: isDuplicate_def list_ex_iff str_includes_def)

lemma filterStep_grows: "set sections \<subseteq> set (filterStep kws ps sections i)"
  by (auto simp add: filterStep_def Let_def)

text \<open>An accepted chunk stays in the list for the rest of the loop.\<close>

lemma collectSections_mono:
  "i \<le> j \<Longrightarrow> set (collectSections kws ps i) \<subseteq> set (collectSections kws ps j)"
proof (induction j)
  case 0
  then show ?case by simp
next
  case (Suc j)
  show ?case
  proof (cases "i = Suc j")
    case True
    then show ?thesis by simp
  next
    case False
    with Suc.prems have "i \<le> j" by simp
    then have "set (collectSections kws ps i) \<subseteq> set (collectSections kws ps j)"
      by (rule Suc.IH)
    also have "\<dots> \<subseteq> set (collectSections kws ps (Suc j))"
      unfolding collectSections_Suc by (rule filterStep_grows)
    finally show ?thesis .
  qed
qed

text \<open>
  The context chunk built around segment \<open>j\<close> holds the trimmed text of every segment at
  most two places away.
\<close>

lemma segment_in_context:
  assumes "i < length ps" "j \<le> i + 2" "i \<le> j + 2"
  shows "sublist (trim (ps ! i)) (contextChunk ps j)"
proof -
  let ?slice = "take (min (length ps) (j + 3) - (j - 2)) (drop (j - 2) ps)"
  have "ps ! i = ?slice ! (i - (j - 2))" using assms by (simp add: min_def)
  moreover have "i - (j - 2) < length ?slice" using assms by (auto simp add: min_def)
  ultimately have "ps ! i \<in> set ?slice" by (metis nth_mem)
  then have "sublist (ps ! i) (join ''. '' ?slice)" by (rule sublist_join)
  with trim_sublist have "sublist (trim (ps ! i)) (join ''. '' ?slice)"
    by (rule sublist_order.order_trans)
  then show ?thesis unfolding contextChunk_def Let_def
    using trim_ends by (rule trim_keeps_infix)
qed

text \<open>The extracted sections of a result are the list the loop ends with.\<close>

lemma extracted_are_collected:
  assumes "trim c \<noteq> []" and "filterKeywords opts = Some kws"
    and "extractedSections (processContentWithOptions c opts) = Some secs"
  shows "secs = collectSections kws (segments c) (length (segments c))"
  using assms
  by (auto simp add: processContentWithOptions_def keywordFilter_def Let_def
      split: if_splits prod.splits)

text \<open>
  Claim C2, as stated: a new context chunk is discarded exactly when an accepted chunk is
  a substring of it or it is a substring of an accepted chunk, so that two overlapping
  chunks, one a substring of the other, collapse into one entry. The paragraphs foo, a, a,
  xfoo, a, a with the keyword foo refute it: when the fourth paragraph is reached the
  accepted chunk \<open>foo. a. a\<close> is a substring of the new chunk \<open>a. a. xfoo. a. a\<close>, the two
  share the second and third paragraph, and both end up in the extracted sections.
\<close>

theorem dedup_counterexample:
  "collectSections [''foo''] (segments dedupExample) 3 = [''foo. a. a''] \<and>
   hasKeyword [''foo''] (segments dedupExample ! 3) \<and>
   contextChunk (segments dedupExample) 3 = ''a. a. xfoo. a. a'' \<and>
   str_includes ''a. a. xfoo. a. a'' ''foo. a. a'' \<and>
   extractedSections (processContentWithOptions dedupExample
      \<lparr>maxLength = None, startOffset = None, filterKeywords = Some [''foo'']\<rparr>) =
     Some [''foo. a. a'', ''a. a. xfoo. a. a'']"
  by code_simp

text \<open>
  Claim C2, amended: the test is made on the matching segment, not on the chunk built
  around it. At a matching segment the new context chunk is discarded exactly when, for
  some accepted chunk, the trimmed segment is a substring of that chunk or that chunk is a
  substring of the trimmed segment. Consequently a matching segment adds no entry when
  its trimmed text occurs in a chunk accepted earlier, which is always so when that chunk
  was built around a segment at most two places before it: the overlapping chunks of two
  such neighbours collapse into the single entry of the first. The extracted sections of
  the result are the chunks accepted in the loop over all segments.
\<close>

theorem dedup_by_matching_segment:
  "(i < length paragraphs \<longrightarrow>
     collectSections kws paragraphs (Suc i) =
       (if hasKeyword kws (paragraphs ! i) \<and>
           \<not> (\<exists>existing \<in> set (collectSections kws paragraphs i).
                 sublist (trim (paragraphs ! i)) existing \<or>
                 sublist existing (trim (paragraphs ! i)))
        then collectSections kws paragraphs i @ [contextChunk paragraphs i]
        else collectSections kws paragraphs i) \<and>
     (\<forall>j<i. contextChunk paragraphs j \<in> set (collectSections kws paragraphs (Suc j)) \<and>
            (sublist (trim (paragraphs ! i)) (contextChunk paragraphs j) \<or> i \<le> j + 2)
        \<longrightarrow> collectSections kws paragraphs (Suc i) = collectSections kws paragraphs i)) \<and>
   (trim c \<noteq> [] \<and> filterKeywords opts = Some kws \<and>
    extractedSections (processContentWithOptions c opts) = Some secs \<longrightarrow>
      secs = collectSections kws (segments c) (length (segments c)))"
proof (intro impI conjI allI)
  show "collectSections kws paragraphs (Suc i) =
       (if hasKeyword kws (paragraphs ! i) \<and>
           \<not> (\<exists>existing \<in> set (collectSections kws paragraphs i).
                 sublist (trim (paragraphs ! i)) existing \<or>
                 sublist existing (trim (paragraphs ! i)))
        then collectSections kws paragraphs i @ [contextChunk paragraphs i]
        else collectSections kws paragraphs i)"
    by (auto simp add: collectSections_Suc filterStep_def isDuplicate_iff Let_def)
next
  fix j
  assume i: "i < length paragraphs" and j: "j < i"
    and a: "contextChunk paragraphs j \<in> set (collectSections kws paragraphs (Suc j)) \<and>
            (sublist (trim (paragraphs ! i)) (contextChunk paragraphs j) \<or> i \<le> j + 2)"
  from j have "Suc j \<le> i" by simp
  from collectSections_mono [OF this] a
  have m: "contextChunk paragraphs j \<in> set (collectSections kws paragraphs i)" by blast
  have "sublist (trim (paragraphs ! i)) (contextChunk paragraphs j)"
  proof (cases "i \<le> j + 2")
    case True
    with i j show ?thesis by (intro segment_in_context) simp_all
  next
    case False
    with a show ?thesis by simp
  qed
  with m have "isDuplicate (collectSections kws paragraphs i) (paragraphs ! i)"
    unfolding isDuplicate_iff by blast
  then show "collectSections kws paragraphs (Suc i) = collectSections kws paragraphs i"
    by (simp add: collectSections_Suc filterStep_def Let_def)
next
  assume "trim c \<noteq> [] \<and> filterKeywords opts = Some kws \<and>
    extractedSections (processContentWithOptions c opts) = Some secs"
  then show "secs = collectSections kws (segments c) (length (segments c))"
    using extracted_are_collected [of c opts kws secs] by simp
qed

theorem dedup_by_matching_segment_witness:
  "segments neighbourExample = [''foo'', ''a'', ''foo''] \<and>
   2 < length (segments neighbourExample) \<and> (0::nat) < 2 \<and> (2::nat) \<le> 0 + 2 \<and>
   hasKeyword [''foo''] (segments neighbourExample ! 2) \<and>
   contextChunk (segments neighbourExample) 0
     \<in> set (collectSections [''foo''] (segments neighbourExample) (Suc 0)) \<and>
   collectSections [''foo''] (segments neighbourExample) (Suc 2) =
     collectSections [''foo''] (segments neighbourExample) 2 \<and>
   trim neighbourExample \<noteq> [] \<and>
   extractedSections (processContentWithOptions neighbourExample
      \<lparr>maxLength = None, startOffset = None, filterKeywords = Some [''foo'']\<rparr>) =
     Some [''foo. a. foo''] \<and>
   [''foo. a. foo''] =
     collectSections [''foo''] (segments neighbourExample) (length (segments neighbourExample))"
proof -
  let ?P = "segments neighbourExample"
  let ?opts = "\<lparr>maxLength = None, startOffset = None, filterKeywords = Some [''foo'']\<rparr>"
  have s: "?P = [''foo'', ''a'', ''foo'']" by code_simp
  have a: "2 < length ?P" "(0::nat) < 2" "(2::nat) \<le> 0 + 2" by (simp_all add: s)
  have b: "contextChunk ?P 0 \<in> set (collectSections [''foo''] ?P (Suc 0))" by code_simp
  have c: "hasKeyword [''foo''] (?P ! 2)" by code_simp
  have t: "trim neighbourExample \<noteq> []" by code_simp
  have k: "filterKeywords ?opts = Some [''foo'']" by simp
  have e: "extractedSections (processContentWithOptions neighbourExample ?opts) =
             Some [''foo. a. foo'']" by code_simp
  note w = dedup_by_matching_segment
    [of 2 ?P "[''foo'']" neighbourExample ?opts "[''foo. a. foo'']"]
  from w a b have 1: "collectSections [''foo''] ?P (Suc 2) = collectSections [''foo''] ?P 2"
    by blast
  from w t k e have 2: "[''foo. a. foo''] = collectSections [''foo''] ?P (length ?P)"
    by blast
  from s a b c 1 t e 2 show ?thesis by (simp only: simp_thms)
qed

subsection \<open>The chunk budget\<close>

lemma allocate_length:
  "length (allocate maxLen avg sections totalUsed chunks) \<le> max 10 (length chunks)"
proof (induction sections arbitrary: totalUsed chunks)
  case Nil
  then show ?case by simp
next
  case (Cons s rest)
  show ?case
  proof (cases "totalUsed < maxLen \<and> length chunks < 10")
    case False
    then show ?thesis by auto
  next
    case True
    then have b: "max 10 (length (chunks @ [x])) = max 10 (length chunks)" for x :: string
      by simp
    show ?thesis
      using True Cons.IH [of _ "chunks @ [_]"] unfolding b
      by (simp add: Let_def)
  qed
qed

lemma keyword_branch:
  assumes "trim c \<noteq> []"
    and "extractedSections (processContentWithOptions c opts) = Some secs"
  shows "secs \<noteq> [] \<and>
         content (processContentWithOptions c opts) =
           fst (applyOffset opts
             (join chunkSeparator
                (allocate (effectiveMaxLength opts) (avgChunkSize (effectiveMaxLength opts) secs)
                   secs 0 []), False))"
  using assms
  by (auto simp add: processContentWithOptions_def keywordFilter_def applyMaxLength_def Let_def
      split: if_splits prod.splits)

text \<open>
  Claim C3, as stated: a chunk is included whole exactly when its length fits within
  \<open>min(avgChunkSize, remainingSpace)\<close>, and otherwise dropped when less than 200
  characters of budget remain. The content \<open>foo bar\<close> with the keyword foo and
  \<open>maxLength = 5\<close> refutes it: the only chunk has 7 characters, the minimum is 5, fewer
  than 200 characters remain, and the chunk is included whole.
\<close>

theorem budget_walk_counterexample:
  "content (processContentWithOptions ''foo bar''
      \<lparr>maxLength = Some 5, startOffset = None, filterKeywords = Some [''foo'']\<rparr>) = ''foo bar'' \<and>
   extractedSections (processContentWithOptions ''foo bar''
      \<lparr>maxLength = Some 5, startOffset = None, filterKeywords = Some [''foo'']\<rparr>) =
     Some [''foo bar''] \<and>
   allocate 5 (avgChunkSize 5 [''foo bar'']) [''foo bar''] 0 [] = [''foo bar''] \<and>
   \<not> int (length ''foo bar'') \<le> min (avgChunkSize 5 [''foo bar'']) (5 - 0)"
  by code_simp

text \<open>
  Claim C3, amended: the size granted to a chunk is never below the minimum viable size,
  \<open>chunkSize = max(200, min(avgChunkSize, remainingSpace))\<close>. In the keyword-filtered
  branch with at least one context chunk, the content is the accepted chunks of the walk
  that starts with \<open>totalUsed = 0\<close> and \<open>avgChunkSize = floor(maxLength / min(chunkCount,
  10))\<close>, joined by the separator (and then cut by the offset). While \<open>totalUsed <
  maxLength\<close> and fewer than 10 chunks are accepted, a chunk is included whole exactly when
  its length is at most \<open>chunkSize\<close>; otherwise, if \<open>remainingSpace \<ge> 200\<close>, its first
  \<open>chunkSize - 3\<close> characters are included with a trailing ellipsis; otherwise the walk
  stops and all remaining chunks are dropped, as it does once \<open>totalUsed\<close> reaches
  \<open>maxLength\<close> or 10 chunks are accepted. At most 10 chunks are ever included.
\<close>

theorem budget_walk:
  "(totalUsed < maxLen \<and> length chunks < 10 \<longrightarrow>
      allocate maxLen avg (section # rest) totalUsed chunks =
        (let remainingSpace = maxLen - totalUsed;
             chunkSize = max 200 (min avg remainingSpace)
         in if int (length section) \<le> chunkSize then
              allocate maxLen avg rest (totalUsed + int (length section) + 4) (chunks @ [section])
            else if 200 \<le> remainingSpace then
              allocate maxLen avg rest (totalUsed + chunkSize + 4)
                (chunks @ [take (nat (chunkSize - 3)) section @ ''...''])
            else chunks)) \<and>
   (\<not> (totalUsed < maxLen \<and> length chunks < 10) \<longrightarrow>
      allocate maxLen avg (section # rest) totalUsed chunks = chunks) \<and>
   length (allocate maxLen avg sections 0 []) \<le> 10 \<and>
   (trim c \<noteq> [] \<and> extractedSections (processContentWithOptions c opts) = Some secs \<longrightarrow>
      secs \<noteq> [] \<and>
      content (processContentWithOptions c opts) =
        fst (applyOffset opts
          (join chunkSeparator
             (allocate (effectiveMaxLength opts)
                (effectiveMaxLength opts div min (int (length secs)) 10) secs 0 []), False)))"
proof (intro conjI impI)
  assume "totalUsed < maxLen \<and> length chunks < 10"
  then show "allocate maxLen avg (section # rest) totalUsed chunks =
        (let remainingSpace = maxLen - totalUsed;
             chunkSize = max 200 (min avg remainingSpace)
         in if int (length section) \<le> chunkSize then
              allocate maxLen avg rest (totalUsed + int (length section) + 4) (chunks @ [section])
            else if 200 \<le> remainingSpace then
              allocate maxLen avg rest (totalUsed + chunkSize + 4)
                (chunks @ [take (nat (chunkSize - 3)) section @ ''...''])
            else chunks)"
    by (simp add: Let_def minChunkSize_def substring_0 add.assoc)
next
  assume "\<not> (totalUsed < maxLen \<and> length chunks < 10)"
  then show "allocate maxLen avg (section # rest) totalUsed chunks = chunks"
    by auto
next
  show "length (allocate maxLen avg sections 0 []) \<le> 10"
    using allocate_length [of maxLen avg sections 0 "[]"] by simp
next
  assume "trim c \<noteq> [] \<and> extractedSections (processContentWithOptions c opts) = Some secs"
  then have "secs \<noteq> [] \<and>
         content (processContentWithOptions c opts) =
           fst (applyOffset opts
             (join chunkSeparator
                (allocate (effectiveMaxLength opts) (avgChunkSize (effectiveMaxLength opts) secs)
                   secs 0 []), False))"
    using keyword_branch [of c opts secs] by simp
  then show "secs \<noteq> []" and
      "content (processContentWithOptions c opts) =
        fst (applyOffset opts
          (join chunkSeparator
             (allocate (effectiveMaxLength opts)
                (effectiveMaxLength opts div min (int (length secs)) 10) secs 0 []), False))"
    by (simp_all add: avgChunkSize_def)
qed

theorem budget_walk_witness:
  "(0::int) < 250 \<and> length ([] :: string list) < 10 \<and>
   allocate 250 250 [replicate 300 CHR ''x''] 0 [] = [replicate 247 CHR ''x'' @ ''...''] \<and>
   trim (replicate 300 CHR ''x'') \<noteq> [] \<and>
   extractedSections (processContentWithOptions (replicate 300 CHR ''x'')
      \<lparr>maxLength = Some 250, startOffset = None, filterKeywords = Some [''x'']\<rparr>) =
     Some [replicate 300 CHR ''x''] \<and>
   content (processContentWithOptions (replicate 300 CHR ''x'')
      \<lparr>maxLength = Some 250, startOffset = None, filterKeywords = Some [''x'']\<rparr>) =
     replicate 247 CHR ''x'' @ ''...''"
proof -
  let ?c = "replicate 300 CHR ''x''"
  let ?opts = "\<lparr>maxLength = Some 250, startOffset = None, filterKeywords = Some [''x'']\<rparr>"
  have a: "(0::int) < 250 \<and> length ([] :: string list) < 10" by simp
  have t: "trim ?c \<noteq> []" by code_simp
  have e: "extractedSections (processContentWithOptions ?c ?opts) = Some [?c]" by code_simp
  note w = budget_walk [of 0 250 "[]" 250 ?c "[]" "[]" ?c ?opts "[?c]"]
  from w a have 1: "allocate 250 250 [?c] 0 [] = [replicate 247 CHR ''x'' @ ''...'']"
    by (simp add: Let_def)
  from w t e have "content (processContentWithOptions ?c ?opts) =
        fst (applyOffset ?opts
          (join chunkSeparator
             (allocate (effectiveMaxLength ?opts)
                (effectiveMaxLength ?opts div min (int (length [?c])) 10) [?c] 0 []), False))"
    by blast
  then have 2: "content (processContentWithOptions ?c ?opts) = replicate 247 CHR ''x'' @ ''...''"
    using 1 by (simp add: effectiveMaxLength_def applyOffset_def effectiveStartOffset_def)
  from a 1 t e 2 show ?thesis by blast
qed

subsection \<open>Determinism\<close>















section \<open>Properties of the word segmenter\<close>

text \<open>
  Claim C6. \<open>segmentMergedWords\<close> never raises to its caller, whatever the dictionary
  does. When the segmentation as a whole fails, as it does when the dictionary cannot be
  loaded, the input text is returned unmodified and, the text being long enough to be
  segmented at all, one warning is printed. When the dictionary is available the output is
  the tokens after segmentation joined by single spaces, and a token on which the
  dictionary raises is left unchanged.
\<close>

theorem segmentMergedWords_never_raises:
  "(\<exists>out. fst (segmentMergedWords lib wordsNinja txt) = Inr out) \<and>
   (fst (segmentation lib wordsNinja txt) = Inl e \<longrightarrow>
      fst (segmentMergedWords lib wordsNinja txt) = Inr txt \<and>
      (10 \<le> length txt \<longrightarrow>
         snd (snd (segmentMergedWords lib wordsNinja txt)) =
           [(''Word segmentation failed:'', e)])) \<and>
   (\<not> wordsNinja \<and> construct lib = None \<and> loadDictionary lib = Some e \<longrightarrow>
      fst (segmentation lib wordsNinja txt) = Inl e) \<and>
   (10 \<le> length txt \<and> fst (initWordSegmentation lib wordsNinja) = Inr () \<longrightarrow>
      fst (segmentMergedWords lib wordsNinja txt) =
        Inr (join '' '' (map (processWord lib) (str_split matchSpaces [] txt)))) \<and>
   (splitSentence lib (toLowerCase word) = Inl e \<longrightarrow> processWord lib word = word)"
proof (intro conjI impI)
  show "\<exists>out. fst (segmentMergedWords lib wordsNinja txt) = Inr out"
    by (simp add: segmentMergedWords_def split: prod.splits sum.splits)
next
  assume "fst (segmentation lib wordsNinja txt) = Inl e"
  then show "fst (segmentMergedWords lib wordsNinja txt) = Inr txt"
    by (auto simp add: segmentMergedWords_def split: prod.splits sum.splits)
next
  assume "fst (segmentation lib wordsNinja txt) = Inl e" and "10 \<le> length txt"
  then show "snd (snd (segmentMergedWords lib wordsNinja txt)) =
      [(''Word segmentation failed:'', e)]"
    by (auto simp add: segmentMergedWords_def split: prod.splits sum.splits)
next
  assume "\<not> wordsNinja \<and> construct lib = None \<and> loadDictionary lib = Some e"
  then show "fst (segmentation lib wordsNinja txt) = Inl e"
    by (simp add: segmentation_def initWordSegmentation_def)
next
  assume "10 \<le> length txt \<and> fst (initWordSegmentation lib wordsNinja) = Inr ()"
  then show "fst (segmentMergedWords lib wordsNinja txt) =
        Inr (join '' '' (map (processWord lib) (str_split matchSpaces [] txt)))"
    by (auto simp add: segmentMergedWords_def segmentation_def split: prod.splits sum.splits)
next
  assume "splitSentence lib (toLowerCase word) = Inl e"
  then show "processWord lib word = word"
    by (simp add: processWord_def)
qed

theorem segmentMergedWords_never_raises_witness:
  "construct unloadedNinja = None \<and>
   loadDictionary unloadedNinja = Some (Thrown ''dictionary not found'') \<and>
   10 \<le> length mergedText \<and>
   fst (segmentMergedWords unloadedNinja False mergedText) = Inr mergedText \<and>
   snd (snd (segmentMergedWords unloadedNinja False mergedText)) =
     [(''Word segmentation failed:'', Thrown ''dictionary not found'')] \<and>
   fst (initWordSegmentation brokenNinja False) = Inr () \<and>
   splitSentence brokenNinja (toLowerCase ''whatyoudoisgood'') = Inl (Thrown ''out of memory'') \<and>
   processWord brokenNinja ''whatyoudoisgood'' = ''whatyoudoisgood'' \<and>
   fst (segmentMergedWords brokenNinja False mergedText) =
     Inr ''whatyoudoisgood thank you very much ok''"
proof -
  let ?e = "Thrown ''dictionary not found''"
  have a: "\<not> False \<and> construct unloadedNinja = None \<and> loadDictionary unloadedNinja = Some ?e"
    by (simp add: unloadedNinja_def)
  have l: "10 \<le> length mergedText" by (simp add: mergedText_def)
  note u = segmentMergedWords_never_raises [of unloadedNinja False mergedText ?e]
  from u a have s: "fst (segmentation unloadedNinja False mergedText) = Inl ?e"
    by (simp only: simp_thms)
  from u s l have 1: "fst (segmentMergedWords unloadedNinja False mergedText) = Inr mergedText"
    and 2: "snd (snd (segmentMergedWords unloadedNinja False mergedText)) =
              [(''Word segmentation failed:'', ?e)]"
    by (simp_all only: simp_thms)
  have i: "fst (initWordSegmentation brokenNinja False) = Inr ()"
    by (simp add: initWordSegmentation_def brokenNinja_def)
  have t: "splitSentence brokenNinja (toLowerCase ''whatyoudoisgood'') =
             Inl (Thrown ''out of memory'')"
    by code_simp
  note b = segmentMergedWords_never_raises
    [of brokenNinja False mergedText "Thrown ''out of memory''" "''whatyoudoisgood''"]
  from b t have 3: "processWord brokenNinja ''whatyoudoisgood'' = ''whatyoudoisgood''"
    by (simp only: simp_thms)
  from b l i have "fst (segmentMergedWords brokenNinja False mergedText) =
      Inr (join '' '' (map (processWord brokenNinja) (str_split matchSpaces [] mergedText)))"
    by (simp only: simp_thms)
  moreover have "join '' '' (map (processWord brokenNinja) (str_split matchSpaces [] mergedText)) =
      ''whatyoudoisgood thank you very much ok''"
    by code_simp
  ultimately have 4: "fst (segmentMergedWords brokenNinja False mergedText) =
      Inr ''whatyoudoisgood thank you very much ok''"
    by (simp only:)
  from a l 1 2 i t 3 4 show ?thesis by (simp only: simp_thms)
qed

section \<open>Properties of the HTML extractor\<close>

lemma isNonContent_rewrite: "isNonContent (rewriteNonContent f n) = isNonContent n"
  by (cases n) (simp_all add: isNonContent_def)

lemma isNonContent_remove: "isNonContent (removeNonContent n) = isNonContent n"
  by (cases n) (simp_all add: isNonContent_def)

text \<open>What the non-content elements hold is gone with them.\<close>

lemma removeNonContent_rewrite:
  "\<not> isNonContent n \<Longrightarrow> removeNonContent (rewriteNonContent f n) = removeNonContent n"
proof (induction n)
  case (Element tag children)
  have "map removeNonContent (filter (\<lambda>child. \<not> isNonContent child)
          (map (rewriteNonContent f) children)) =
        map removeNonContent (filter (\<lambda>child. \<not> isNonContent child) children)"
    using Element.IH by (induction children) (simp_all add: isNonContent_rewrite)
  with Element.prems show ?case by simp
next
  case (TextNode raw)
  then show ?case by simp
qed

text \<open>After the removal no descendant of the root is a non-content element.\<close>

lemma removeNonContent_clean:
  "m \<in> set (descendants (removeNonContent n)) \<Longrightarrow> \<not> isNonContent m"
proof (induction n arbitrary: m)
  case (Element tag children)
  from Element.prems obtain child where c: "child \<in> set children" "\<not> isNonContent child"
    and m: "m = removeNonContent child \<or> m \<in> set (descendants (removeNonContent child))"
    by auto
  from m show ?case
  proof
    assume "m = removeNonContent child"
    with c show ?thesis by (simp add: isNonContent_remove)
  next
    assume "m \<in> set (descendants (removeNonContent child))"
    with c(1) show ?thesis by (rule Element.IH)
  qed
next
  case (TextNode raw)
  then show ?case by simp
qed

text \<open>
  Claim C8, as stated: the output never contains the literal text of a script or style
  element of the input. The page \<open><body>abc<script>abc</script></body>\<close> refutes it: the
  script element holds the text \<open>abc\<close>, the element is removed, and the output \<open>abc\<close>,
  taken from the body, contains that text.
\<close>

theorem script_text_counterexample:
  "Element ''script'' [TextNode ''abc''] \<in> set (descendants (parse pageParser scriptPage)) \<and>
   nodeText pageParser (Element ''script'' [TextNode ''abc'']) = ''abc'' \<and>
   extractTextFromHtml pageParser scriptPage = ''abc'' \<and>
   str_includes (extractTextFromHtml pageParser scriptPage) ''abc''"
  by code_simp

text \<open>
  Claim C8, amended: for every input whose root is not itself such an element (the root of
  a parsed document has no tag name), all elements matching script, style, nav, header,
  footer are removed with their subtrees before the text is extracted: none of them is
  left in the tree that the title and the body text are read from, and they never
  contribute to the output, which is the same for any other input whose tree differs only
  in what these elements hold. The output can still contain a text equal to the text of a
  script or style element when that text also stands outside these elements.
\<close>

theorem non_content_never_contributes:
  "\<not> isNonContent (parse lib html) \<longrightarrow>
     (\<forall>n \<in> set (descendants (removeNonContent (parse lib html))). \<not> isNonContent n) \<and>
     (parse lib html' = rewriteNonContent f (parse lib html) \<and>
      (trim html' = []) = (trim html = []) \<longrightarrow>
        extractTextFromHtml lib html' = extractTextFromHtml lib html)"
  by (auto simp add: extractTextFromHtml_def removeNonContent_rewrite
      dest: removeNonContent_clean)

theorem non_content_never_contributes_witness:
  "\<not> isNonContent (parse pageParser scriptPage) \<and>
   parse pageParser otherScriptPage =
     rewriteNonContent (\<lambda>children. [TextNode ''xyz'']) (parse pageParser scriptPage) \<and>
   (trim otherScriptPage = []) = (trim scriptPage = []) \<and>
   extractTextFromHtml pageParser otherScriptPage = extractTextFromHtml pageParser scriptPage \<and>
   descendants (removeNonContent (parse pageParser scriptPage)) =
     [Element ''body'' [TextNode ''abc''], TextNode ''abc'']"
proof -
  have a: "\<not> isNonContent (parse pageParser scriptPage)" by code_simp
  have b: "parse pageParser otherScriptPage =
     rewriteNonContent (\<lambda>children. [TextNode ''xyz'']) (parse pageParser scriptPage)"
    by code_simp
  have c: "(trim otherScriptPage = []) = (trim scriptPage = [])" by code_simp
  have d: "descendants (removeNonContent (parse pageParser scriptPage)) =
     [Element ''body'' [TextNode ''abc''], TextNode ''abc'']" by code_simp
  from non_content_never_contributes [of pageParser scriptPage otherScriptPage
      "\<lambda>children. [TextNode ''xyz'']"] a b c
  have "extractTextFromHtml pageParser otherScriptPage = extractTextFromHtml pageParser scriptPage"
    by (simp only: simp_thms)
  with a b c d show ?thesis by (simp only: simp_thms)
qed

section \<open>Properties of the URL conversion\<close>

text \<open>
  Claim C7. \<open>convertUrlToText\<close> never propagates an error to its caller. The remote
  converter is the selected path for the categories article and pdf and for an
  unspecified category, the fetch of the raw HTML with local extraction for every other
  category; whenever the selected path fails, for a URL that is not blank, the operation
  returns the fixed text \<open>[Content unavailable - conversion error]\<close> and prints a warning.
\<close>

theorem convertUrlToText_never_raises:
  "(\<exists>out. fst (convertUrlToText fetch lib url category) = Inr out) \<and>
   (trim url \<noteq> [] \<and> conversion fetch lib url category = Inl e \<longrightarrow>
      convertUrlToText fetch lib url category =
        (Inr ''[Content unavailable - conversion error]'',
         [(''Error converting URL to text:'', e)])) \<and>
   (category \<in> {None, Some [], Some ''article'', Some ''pdf''} \<longrightarrow>
      conversion fetch lib url category = convertWithJina fetch url) \<and>
   (category \<notin> {None, Some [], Some ''article'', Some ''pdf''} \<longrightarrow>
      conversion fetch lib url category = fetchAndExtract fetch lib url)"
proof (intro conjI impI)
  show "\<exists>out. fst (convertUrlToText fetch lib url category) = Inr out"
    by (simp add: convertUrlToText_def split: sum.splits)
next
  assume "trim url \<noteq> [] \<and> conversion fetch lib url category = Inl e"
  then show "convertUrlToText fetch lib url category =
        (Inr ''[Content unavailable - conversion error]'',
         [(''Error converting URL to text:'', e)])"
    by (simp add: convertUrlToText_def conversionError_def)
next
  assume "category \<in> {None, Some [], Some ''article'', Some ''pdf''}"
  then have "shouldUseJina category" by (auto simp add: shouldUseJina_def)
  then show "conversion fetch lib url category = convertWithJina fetch url"
    by (simp add: conversion_def)
next
  assume "category \<notin> {None, Some [], Some ''article'', Some ''pdf''}"
  then have "\<not> shouldUseJina category"
    by (auto simp add: shouldUseJina_def split: option.splits)
  then show "conversion fetch lib url category = fetchAndExtract fetch lib url"
    by (simp add: conversion_def)
qed

theorem convertUrlToText_never_raises_witness:
  "trim ''https://example.org/a'' \<noteq> [] \<and>
   conversion offlineFetch pageParser ''https://example.org/a'' None =
     Inl (Thrown ''network unreachable'') \<and>
   convertUrlToText offlineFetch pageParser ''https://example.org/a'' None =
     (Inr ''[Content unavailable - conversion error]'',
      [(''Error converting URL to text:'', Thrown ''network unreachable'')]) \<and>
   Some ''tweet'' \<notin> {None, Some [], Some ''article'', Some ''pdf''} \<and>
   conversion serverErrorFetch pageParser ''https://example.org/a'' (Some ''tweet'') =
     Inl (HtmlFetchFailed 500) \<and>
   convertUrlToText serverErrorFetch pageParser ''https://example.org/a'' (Some ''tweet'') =
     (Inr ''[Content unavailable - conversion error]'',
      [(''Error converting URL to text:'', HtmlFetchFailed 500)])"
proof -
  let ?url = "''https://example.org/a''"
  have u: "trim ?url \<noteq> []" by code_simp
  have n: "None \<in> {None, Some [], Some ''article'', Some ''pdf''}" by simp
  have t: "Some ''tweet'' \<notin> {None, Some [], Some ''article'', Some ''pdf''}" by simp
  note a = convertUrlToText_never_raises
    [of offlineFetch pageParser ?url None "Thrown ''network unreachable''"]
  from a n have "conversion offlineFetch pageParser ?url None = convertWithJina offlineFetch ?url"
    by (simp only: simp_thms)
  then have 1: "conversion offlineFetch pageParser ?url None = Inl (Thrown ''network unreachable'')"
    by (simp add: convertWithJina_def offlineFetch_def)
  from a u 1 have 2: "convertUrlToText offlineFetch pageParser ?url None =
     (Inr ''[Content unavailable - conversion error]'',
      [(''Error converting URL to text:'', Thrown ''network unreachable'')])"
    by (simp only: simp_thms)
  note b = convertUrlToText_never_raises
    [of serverErrorFetch pageParser ?url "Some ''tweet''" "HtmlFetchFailed 500"]
  from b t have "conversion serverErrorFetch pageParser ?url (Some ''tweet'') =
      fetchAndExtract serverErrorFetch pageParser ?url"
    by (simp only: simp_thms)
  then have 3: "conversion serverErrorFetch pageParser ?url (Some ''tweet'') =
      Inl (HtmlFetchFailed 500)"
    by (simp add: fetchAndExtract_def serverErrorFetch_def)
  from b u 3 have 4: "convertUrlToText serverErrorFetch pageParser ?url (Some ''tweet'') =
     (Inr ''[Content unavailable - conversion error]'',
      [(''Error converting URL to text:'', HtmlFetchFailed 500)])"
    by (simp only: simp_thms)
  from u 1 2 t 3 4 show ?thesis by (simp only: simp_thms)
qed

end
